theory Spec2Isabelle
  imports Complex_Main
begin

section \<open>The persisted data of backend/app/db.py\<close>

text \<open>
  The module \<^verbatim>\<open>backend/app/db.py\<close> keeps four tables that the operations below touch:
  \<^verbatim>\<open>meetings\<close>, \<^verbatim>\<open>summary_processes\<close>, \<^verbatim>\<open>transcript_chunks\<close> and \<^verbatim>\<open>settings\<close>.
  A table is the list of its rows in insertion order, a row is a record with one field
  per column, and a nullable column holds an \<open>option\<close>. Every operation opens its own
  connection, runs its statements and commits, so an operation is a function from the
  database before the call to the outcome and the database after it. The clock reading
  \<^verbatim>\<open>datetime.utcnow().isoformat()\<close> (and SQLite's \<^verbatim>\<open>datetime('now')\<close>) is the
  parameter \<open>now\<close>. SQLite does not enforce the declared foreign keys unless asked to,
  and the module never asks; they are not modelled. The table \<^verbatim>\<open>transcripts\<close> is used
  by none of the operations below and is left out.
\<close>

datatype json = JNull | JBool bool | JNum int | JStr string
  | JArr "json list" | JObj "(string \<times> json) list"

text \<open>A Python \<^verbatim>\<open>Dict\<close> argument: its items in order. It is falsy exactly when empty.\<close>

type_synonym dict = "(string \<times> json) list"

text \<open>The text \<^verbatim>\<open>json.dumps(d)\<close>, kept as the document it serialises.\<close>

datatype json_text = Json_dumps dict

datatype error = ValueError string | Exception string | IntegrityError string
  | UnboundLocalError string | OverflowError string

record meeting_row =
  m_id :: string
  m_title :: string
  m_created_at :: string
  m_updated_at :: string

record process_row =
  p_meeting_id :: string
  p_status :: string
  p_created_at :: string
  p_updated_at :: string
  p_error :: "string option"
  p_result :: "json_text option"
  p_start_time :: "string option"
  p_end_time :: "string option"
  p_chunk_count :: "int option"
  p_processing_time :: "real option"
  p_metadata :: "json_text option"

record chunk_row =
  c_meeting_id :: string
  c_meeting_name :: "string option"
  c_transcript_text :: string
  c_model :: string
  c_model_name :: string
  c_chunk_size :: "int option"
  c_overlap :: "int option"
  c_created_at :: string

record settings_row =
  s_id :: string
  s_provider :: string
  s_model :: string
  s_whisperModel :: string
  s_groqApiKey :: "string option"
  s_openaiApiKey :: "string option"
  s_anthropicApiKey :: "string option"
  s_ollamaApiKey :: "string option"

record db =
  meetings :: "meeting_row list"
  summary_processes :: "process_row list"
  transcript_chunks :: "chunk_row list"
  settings :: "settings_row list"

text \<open>A database file that did not exist: \<^verbatim>\<open>CREATE TABLE IF NOT EXISTS\<close> makes each table empty.\<close>

definition empty_db :: db where
  "empty_db = \<lparr>meetings = [], summary_processes = [], transcript_chunks = [], settings = []\<rparr>"

section \<open>The SQL statements the module issues\<close>

text \<open>\<^verbatim>\<open>UPDATE t SET ... WHERE w\<close>: every row that satisfies \<open>w\<close> is rewritten.\<close>

definition sql_update :: "('r \<Rightarrow> bool) \<Rightarrow> ('r \<Rightarrow> 'r) \<Rightarrow> 'r list \<Rightarrow> 'r list" where
  "sql_update w f rows = map (\<lambda>r. if w r then f r else r) rows"

text \<open>The number of rows a statement with that \<^verbatim>\<open>WHERE\<close> clause changes.\<close>

definition rowcount :: "('r \<Rightarrow> bool) \<Rightarrow> 'r list \<Rightarrow> nat" where
  "rowcount w rows = length (filter w rows)"

text \<open>\<^verbatim>\<open>cursor.fetchone()\<close>: the first row of the result, or \<^verbatim>\<open>None\<close>.\<close>

definition fetchone :: "'r list \<Rightarrow> 'r option" where
  "fetchone rows = (case rows of [] \<Rightarrow> None | r # _ \<Rightarrow> Some r)"

text \<open>
  \<^verbatim>\<open>INSERT INTO t\<close> on a table with a primary key: a row whose key is already there is
  refused with an integrity error.
\<close>

definition sql_insert :: "('r \<Rightarrow> string) \<Rightarrow> 'r \<Rightarrow> 'r list \<Rightarrow> error + 'r list" where
  "sql_insert key r rows =
     (if key r \<in> set (map key rows) then Inl (IntegrityError ''UNIQUE constraint failed'')
      else Inr (rows @ [r]))"

text \<open>\<^verbatim>\<open>INSERT OR IGNORE\<close>: a row whose key is already there is skipped.\<close>

definition sql_insert_or_ignore :: "('r \<Rightarrow> string) \<Rightarrow> 'r \<Rightarrow> 'r list \<Rightarrow> 'r list" where
  "sql_insert_or_ignore key r rows =
     (if key r \<in> set (map key rows) then rows else rows @ [r])"

text \<open>\<^verbatim>\<open>INSERT OR REPLACE\<close>: the rows with that key are deleted, then the row is inserted.\<close>

definition sql_insert_or_replace :: "('r \<Rightarrow> string) \<Rightarrow> 'r \<Rightarrow> 'r list \<Rightarrow> 'r list" where
  "sql_insert_or_replace key r rows = filter (\<lambda>x. key x \<noteq> key r) rows @ [r]"

text \<open>
  Binding a Python \<^verbatim>\<open>int\<close> to a statement: SQLite's INTEGER is a signed 64-bit number,
  and \<^verbatim>\<open>execute\<close> raises \<^verbatim>\<open>OverflowError\<close> for an \<^verbatim>\<open>int\<close> outside that range, before
  the statement runs. \<open>binds\<close> is the same test for an optional parameter.
\<close>

definition sqlite_integer :: "int \<Rightarrow> bool" where
  "sqlite_integer n = (- (2 ^ 63) \<le> n \<and> n < 2 ^ 63)"

definition binds :: "int option \<Rightarrow> bool" where
  "binds v = (case v of None \<Rightarrow> True | Some n \<Rightarrow> sqlite_integer n)"

definition too_large :: error where
  "too_large = OverflowError ''Python int too large to convert to SQLite INTEGER''"

section \<open>Bootstrap\<close>

text \<open>The row \<^verbatim>\<open>('1', 'openai', 'gpt-4o-mini', 'whisper-1')\<close>; the key columns are not listed, so NULL.\<close>

definition default_settings :: settings_row where
  "default_settings =
     \<lparr>s_id = ''1'', s_provider = ''openai'', s_model = ''gpt-4o-mini'',
      s_whisperModel = ''whisper-1'', s_groqApiKey = None, s_openaiApiKey = None,
      s_anthropicApiKey = None, s_ollamaApiKey = None\<rparr>"

text \<open>
  \<^verbatim>\<open>_init_db\<close>: the tables that exist are kept (\<^verbatim>\<open>CREATE TABLE IF NOT EXISTS\<close>), the
  \<^verbatim>\<open>SELECT COUNT(*)\<close> result is not read, and the default row goes in with
  \<^verbatim>\<open>INSERT OR IGNORE\<close>.
\<close>

definition init_db :: "db \<Rightarrow> db" where
  "init_db s = s\<lparr>settings := sql_insert_or_ignore s_id default_settings (settings s)\<rparr>"

section \<open>Process tracker\<close>

text \<open>
  The row \<^verbatim>\<open>create_process\<close> inserts: \<^verbatim>\<open>chunk_count\<close> and \<^verbatim>\<open>processing_time\<close> take their
  column defaults 0 and 0.0, the other columns it does not list are NULL.
\<close>

definition new_process_row :: "string \<Rightarrow> string \<Rightarrow> process_row" where
  "new_process_row meeting_id now =
     \<lparr>p_meeting_id = meeting_id, p_status = ''PENDING'', p_created_at = now,
      p_updated_at = now, p_error = None, p_result = None, p_start_time = Some now,
      p_end_time = None, p_chunk_count = Some 0, p_processing_time = Some 0,
      p_metadata = None\<rparr>"

text \<open>
  \<^verbatim>\<open>create_process\<close>: the \<^verbatim>\<open>UPDATE\<close> first; \<^verbatim>\<open>conn.total_changes\<close> of the fresh connection
  is the number of rows it changed; when that is 0 the \<^verbatim>\<open>INSERT\<close> follows. The result is
  the meeting id.
\<close>

definition create_process :: "string \<Rightarrow> string \<Rightarrow> db \<Rightarrow> (error + string) \<times> db" where
  "create_process meeting_id now s =
     (let rows = sql_update (\<lambda>r. p_meeting_id r = meeting_id)
                   (\<lambda>r. r\<lparr>p_status := ''PENDING'', p_updated_at := now,
                          p_start_time := Some now, p_error := None, p_result := None\<rparr>)
                   (summary_processes s);
          total_changes = rowcount (\<lambda>r. p_meeting_id r = meeting_id) (summary_processes s)
      in if total_changes = 0
         then (case sql_insert p_meeting_id (new_process_row meeting_id now) rows of
                 Inl e \<Rightarrow> (Inl e, s)
               | Inr rows' \<Rightarrow> (Inr meeting_id, s\<lparr>summary_processes := rows'\<rparr>))
         else (Inr meeting_id, s\<lparr>summary_processes := rows\<rparr>))"

text \<open>
  \<^verbatim>\<open>update_process\<close> collects the \<^verbatim>\<open>SET\<close> clauses in \<^verbatim>\<open>update_fields\<close>, in the order
  of the source: \<^verbatim>\<open>if result:\<close>, \<^verbatim>\<open>if error:\<close> and \<^verbatim>\<open>if metadata:\<close> test Python's
  truth value (\<open>truthy\<close>: not \<^verbatim>\<open>None\<close> and not empty), \<^verbatim>\<open>chunk_count\<close> and
  \<^verbatim>\<open>processing_time\<close> are tested with \<^verbatim>\<open>is not None\<close>. The statement is then executed
  with the collected parameters: a \<^verbatim>\<open>chunk_count\<close> that does not fit SQLite's INTEGER makes
  \<^verbatim>\<open>execute\<close> raise, nothing is written and nothing is committed.
\<close>

definition truthy :: "'a list option \<Rightarrow> bool" where
  "truthy v = (case v of None \<Rightarrow> False | Some xs \<Rightarrow> xs \<noteq> [])"

definition update_fields ::
  "string \<Rightarrow> dict option \<Rightarrow> string option \<Rightarrow> int option \<Rightarrow> real option \<Rightarrow> dict option
     \<Rightarrow> string \<Rightarrow> (process_row \<Rightarrow> process_row) list" where
  "update_fields status result error chunk_count processing_time metadata now =
     [\<lambda>r. r\<lparr>p_status := status\<rparr>, \<lambda>r. r\<lparr>p_updated_at := now\<rparr>]
     @ (if truthy result then [\<lambda>r. r\<lparr>p_result := Some (Json_dumps (the result))\<rparr>] else [])
     @ (if truthy error then [\<lambda>r. r\<lparr>p_error := error\<rparr>] else [])
     @ (if chunk_count \<noteq> None then [\<lambda>r. r\<lparr>p_chunk_count := chunk_count\<rparr>] else [])
     @ (if processing_time \<noteq> None then [\<lambda>r. r\<lparr>p_processing_time := processing_time\<rparr>]
        else [])
     @ (if truthy metadata then [\<lambda>r. r\<lparr>p_metadata := Some (Json_dumps (the metadata))\<rparr>]
        else [])
     @ (if status = ''COMPLETED'' \<or> status = ''FAILED''
        then [\<lambda>r. r\<lparr>p_end_time := Some now\<rparr>] else [])"

text \<open>The \<^verbatim>\<open>SET\<close> clauses of one statement, applied to a row.\<close>

definition apply_fields :: "('r \<Rightarrow> 'r) list \<Rightarrow> 'r \<Rightarrow> 'r" where
  "apply_fields fs r = foldl (\<lambda>x f. f x) r fs"

definition update_process ::
  "string \<Rightarrow> string \<Rightarrow> dict option \<Rightarrow> string option \<Rightarrow> int option \<Rightarrow> real option
     \<Rightarrow> dict option \<Rightarrow> string \<Rightarrow> db \<Rightarrow> (error + unit) \<times> db" where
  "update_process meeting_id status result error chunk_count processing_time metadata now s =
     (if \<not> binds chunk_count then (Inl too_large, s)
      else (Inr (), s\<lparr>summary_processes :=
                        sql_update (\<lambda>r. p_meeting_id r = meeting_id)
                          (apply_fields
                             (update_fields status result error chunk_count processing_time
                                metadata now))
                          (summary_processes s)\<rparr>))"

section \<open>Transcript accumulation\<close>

text \<open>
  \<^verbatim>\<open>save_transcript\<close>: the stored text is read (\<^verbatim>\<open>if row and row[0]\<close>), the new text is
  put after it, and the row is written with \<^verbatim>\<open>INSERT OR REPLACE\<close>. The statement lists
  every column but \<^verbatim>\<open>meeting_name\<close>, so the row it writes has \<^verbatim>\<open>meeting_name\<close> NULL.
  A \<^verbatim>\<open>chunk_size\<close> or an \<^verbatim>\<open>overlap\<close> that does not fit SQLite's INTEGER makes the
  \<^verbatim>\<open>execute\<close> of that statement raise; the \<^verbatim>\<open>SELECT\<close> before it changed nothing.
\<close>

definition save_transcript ::
  "string \<Rightarrow> string \<Rightarrow> string \<Rightarrow> string \<Rightarrow> int \<Rightarrow> int \<Rightarrow> string \<Rightarrow> db
     \<Rightarrow> (error + unit) \<times> db" where
  "save_transcript meeting_id transcript_text model model_name chunk_size overlap now s =
     (let row = fetchone (map c_transcript_text
                  (filter (\<lambda>r. c_meeting_id r = meeting_id) (transcript_chunks s)));
          existing_text = (case row of Some t \<Rightarrow> (if t \<noteq> [] then t else []) | None \<Rightarrow> []);
          accumulated_transcript_text =
            (if existing_text \<noteq> [] \<and> transcript_text \<noteq> []
             then existing_text @ transcript_text
             else if transcript_text \<noteq> [] then transcript_text else existing_text)
      in if \<not> (sqlite_integer chunk_size \<and> sqlite_integer overlap) then (Inl too_large, s)
         else (Inr (), s\<lparr>transcript_chunks :=
                           sql_insert_or_replace c_meeting_id
                             \<lparr>c_meeting_id = meeting_id, c_meeting_name = None,
                              c_transcript_text = accumulated_transcript_text, c_model = model,
                              c_model_name = model_name, c_chunk_size = Some chunk_size,
                              c_overlap = Some overlap, c_created_at = now\<rparr>
                             (transcript_chunks s)\<rparr>))"

text \<open>\<^verbatim>\<open>update_meeting_name\<close>: the title of the meeting and its copy in the working buffer.\<close>

definition update_meeting_name :: "string \<Rightarrow> string \<Rightarrow> string \<Rightarrow> db \<Rightarrow> unit \<times> db" where
  "update_meeting_name meeting_id meeting_name now s =
     ((), s\<lparr>meetings :=
               sql_update (\<lambda>r. m_id r = meeting_id)
                 (\<lambda>r. r\<lparr>m_title := meeting_name, m_updated_at := now\<rparr>) (meetings s),
             transcript_chunks :=
               sql_update (\<lambda>r. c_meeting_id r = meeting_id)
                 (\<lambda>r. r\<lparr>c_meeting_name := Some meeting_name\<rparr>) (transcript_chunks s)\<rparr>)"

text \<open>
  \<^verbatim>\<open>get_transcript_data\<close>: the join of the two tables on \<^verbatim>\<open>meeting_id\<close>; the dictionary
  it builds from the first joined row is that row of \<^verbatim>\<open>transcript_chunks\<close> with the
  \<^verbatim>\<open>status\<close> and \<^verbatim>\<open>result\<close> of the process.
\<close>

definition get_transcript_data ::
  "string \<Rightarrow> db \<Rightarrow> (chunk_row \<times> string \<times> json_text option) option \<times> db" where
  "get_transcript_data meeting_id s =
     (let joined = concat (map (\<lambda>t. map (\<lambda>p. (t, p_status p, p_result p))
                       (filter (\<lambda>p. c_meeting_id t = p_meeting_id p) (summary_processes s)))
                     (filter (\<lambda>t. c_meeting_id t = meeting_id) (transcript_chunks s)))
      in (fetchone joined, s))"

section \<open>Meeting registry\<close>

text \<open>
  \<^verbatim>\<open>save_meeting\<close>: a meeting with that id or that title makes it raise; the exception is
  logged and raised again. Nothing was written before the \<^verbatim>\<open>raise\<close>.
\<close>

definition save_meeting :: "string \<Rightarrow> string \<Rightarrow> string \<Rightarrow> db \<Rightarrow> (error + bool) \<times> db" where
  "save_meeting meeting_id title now s =
     (let existing_meeting = fetchone (map m_id
             (filter (\<lambda>r. m_id r = meeting_id \<or> m_title r = title) (meetings s)))
      in case existing_meeting of
           None \<Rightarrow>
             (case sql_insert m_id
                     \<lparr>m_id = meeting_id, m_title = title, m_created_at = now,
                      m_updated_at = now\<rparr> (meetings s) of
                Inl e \<Rightarrow> (Inl e, s)
              | Inr rows \<Rightarrow> (Inr True, s\<lparr>meetings := rows\<rparr>))
         | Some _ \<Rightarrow>
             (Inl (Exception (''Meeting with ID '' @ meeting_id @ '' already exists'')), s))"

section \<open>API keys\<close>

datatype api_key_column = OpenaiApiKey | AnthropicApiKey | GroqApiKey | OllamaApiKey

definition provider_list :: "string list" where
  "provider_list = [''openai'', ''claude'', ''groq'', ''ollama'']"

text \<open>The \<^verbatim>\<open>if\<close>/\<^verbatim>\<open>elif\<close> chain that binds \<^verbatim>\<open>api_key_name\<close>; no branch taken leaves it unbound.\<close>

definition api_key_name :: "string \<Rightarrow> api_key_column option" where
  "api_key_name provider =
     (if provider = ''openai'' then Some OpenaiApiKey
      else if provider = ''claude'' then Some AnthropicApiKey
      else if provider = ''groq'' then Some GroqApiKey
      else if provider = ''ollama'' then Some OllamaApiKey
      else None)"

fun set_column :: "api_key_column \<Rightarrow> string option \<Rightarrow> settings_row \<Rightarrow> settings_row" where
  "set_column OpenaiApiKey v r = r\<lparr>s_openaiApiKey := v\<rparr>"
| "set_column AnthropicApiKey v r = r\<lparr>s_anthropicApiKey := v\<rparr>"
| "set_column GroqApiKey v r = r\<lparr>s_groqApiKey := v\<rparr>"
| "set_column OllamaApiKey v r = r\<lparr>s_ollamaApiKey := v\<rparr>"

fun get_column :: "api_key_column \<Rightarrow> settings_row \<Rightarrow> string option" where
  "get_column OpenaiApiKey r = s_openaiApiKey r"
| "get_column AnthropicApiKey r = s_anthropicApiKey r"
| "get_column GroqApiKey r = s_groqApiKey r"
| "get_column OllamaApiKey r = s_ollamaApiKey r"

definition save_api_key :: "string \<Rightarrow> string \<Rightarrow> db \<Rightarrow> (error + unit) \<times> db" where
  "save_api_key api_key provider s =
     (if provider \<notin> set provider_list
      then (Inl (ValueError (''Invalid provider: '' @ provider)), s)
      else case api_key_name provider of
             None \<Rightarrow> (Inl (UnboundLocalError ''api_key_name''), s)
           | Some col \<Rightarrow>
               (Inr (), s\<lparr>settings :=
                           sql_update (\<lambda>r. s_id r = ''1'') (set_column col (Some api_key))
                             (settings s)\<rparr>))"

text \<open>\<^verbatim>\<open>get_api_key\<close>: \<^verbatim>\<open>row[0] if row and row[0] else None\<close>, so an empty key reads as none.\<close>

definition get_api_key :: "string \<Rightarrow> db \<Rightarrow> (error + string option) \<times> db" where
  "get_api_key provider s =
     (if provider \<notin> set provider_list
      then (Inl (ValueError (''Invalid provider: '' @ provider)), s)
      else case api_key_name provider of
             None \<Rightarrow> (Inl (UnboundLocalError ''api_key_name''), s)
           | Some col \<Rightarrow>
               (let row = fetchone (map (get_column col)
                            (filter (\<lambda>r. s_id r = ''1'') (settings s)));
                    api_key_value = (case row of
                                       Some (Some k) \<Rightarrow> if k \<noteq> [] then Some k else None
                                     | _ \<Rightarrow> None)
                in (Inr api_key_value, s)))"

definition delete_api_key :: "string \<Rightarrow> db \<Rightarrow> (error + unit) \<times> db" where
  "delete_api_key provider s =
     (if provider \<notin> set provider_list
      then (Inl (ValueError (''Invalid provider: '' @ provider)), s)
      else case api_key_name provider of
             None \<Rightarrow> (Inl (UnboundLocalError ''api_key_name''), s)
           | Some col \<Rightarrow>
               (Inr (), s\<lparr>settings :=
                           sql_update (\<lambda>r. s_id r = ''1'') (set_column col None)
                             (settings s)\<rparr>))"

section \<open>Sequences of calls\<close>

text \<open>
  A call of the process tracker on one meeting, with the clock reading it sees. \<open>step\<close>
  gives the database after the call, whether the call returned or raised; \<open>stamps\<close> says
  that the call is an \<open>update_process\<close> with a terminal status whose statement is executed.
\<close>

datatype call =
  Create string
| Update string string "dict option" "string option" "int option" "real option" "dict option"

fun step :: "string \<Rightarrow> call \<Rightarrow> db \<Rightarrow> db" where
  "step m (Create now) s = snd (create_process m now s)"
| "step m (Update now status result error chunk_count processing_time metadata) s =
     snd (update_process m status result error chunk_count processing_time metadata now s)"

definition run :: "string \<Rightarrow> call list \<Rightarrow> db \<Rightarrow> db" where
  "run m calls s = fold (step m) calls s"

definition terminal :: "string \<Rightarrow> bool" where
  "terminal status = (status = ''COMPLETED'' \<or> status = ''FAILED'')"

fun stamps :: "call \<Rightarrow> bool" where
  "stamps (Create now) = False"
| "stamps (Update now status result error chunk_count processing_time metadata) =
     (terminal status \<and> binds chunk_count)"

text \<open>The rows of a meeting in the process table.\<close>

definition process_rows :: "string \<Rightarrow> db \<Rightarrow> process_row list" where
  "process_rows m s = filter (\<lambda>r. p_meeting_id r = m) (summary_processes s)"

definition chunk_rows :: "string \<Rightarrow> db \<Rightarrow> chunk_row list" where
  "chunk_rows m s = filter (\<lambda>r. c_meeting_id r = m) (transcript_chunks s)"

section \<open>Sample databases\<close>

text \<open>A process that was created and then completed, and one that was created and then failed.\<close>

definition db_completed :: db where
  "db_completed =
     run ''m1'' [Create ''t0'',
                 Update ''t1'' ''COMPLETED'' (Some [(''summary'', JStr ''ok'')]) None None None None]
       empty_db"

definition db_failed :: db where
  "db_failed =
     run ''m1'' [Create ''t0'', Update ''t1'' ''FAILED'' None (Some ''boom'') None None None]
       empty_db"

text \<open>
  A meeting whose working buffer holds one chunk and which has no process, and the same
  meeting after it was renamed.
\<close>

definition db_chunk :: db where
  "db_chunk =
     snd (save_transcript ''m1'' ''<p>hello</p>'' ''gpt-4o-mini'' ''gpt-4o-mini'' 1000 100 ''t1''
            (snd (save_meeting ''m1'' ''Standup'' ''t0'' empty_db)))"

definition db_renamed :: db where
  "db_renamed = snd (update_meeting_name ''m1'' ''Weekly'' ''t2'' db_chunk)"

text \<open>The database after bootstrap, and after an OpenAI key was saved.\<close>

definition db_init :: db where
  "db_init = init_db empty_db"

definition db_key :: db where
  "db_key = snd (save_api_key ''sk-123'' ''openai'' db_init)"

section \<open>Properties of the SQL statements\<close>

lemma sql_update_none: "\<forall>r\<in>set rows. \<not> w r \<Longrightarrow> sql_update w f rows = rows"
  by (induction rows) (auto simp: sql_update_def)

lemma filter_sql_update:
  "(\<And>r. key (f r) = key r) \<Longrightarrow>
   filter (\<lambda>r. key r = k) (sql_update (\<lambda>r. key r = k) f rows)
     = map f (filter (\<lambda>r. key r = k) rows)"
  by (induction rows) (auto simp: sql_update_def)

section \<open>Properties of the process tracker\<close>

lemma binds_iff:
  "binds v \<longleftrightarrow> v = None \<or> (\<exists>n. v = Some n \<and> - (2 ^ 63) \<le> n \<and> n < 2 ^ 63)"
  by (simp add: binds_def sqlite_integer_def split: option.split)

lemma update_process_raises:
  "\<not> binds chunk_count \<Longrightarrow>
   update_process m status result error chunk_count processing_time metadata now s
     = (Inl too_large, s)"
  by (simp add: update_process_def)

text \<open>
  Claim C6, as stated, fails: with no row for the meeting id, a \<^verbatim>\<open>chunk_count\<close> of
  \<open>2 ^ 63\<close> does not fit SQLite's INTEGER and the call raises \<^verbatim>\<open>OverflowError\<close> instead of
  returning (the database is unchanged all the same).
\<close>

theorem update_process_missing_counterexample:
  "''m2'' \<notin> set (map p_meeting_id
              (summary_processes (snd (create_process ''m1'' ''t0'' empty_db))))
   \<and> update_process ''m2'' ''COMPLETED'' None None (Some (2 ^ 63)) None None ''t1''
        (snd (create_process ''m1'' ''t0'' empty_db))
      = (Inl (OverflowError ''Python int too large to convert to SQLite INTEGER''),
         snd (create_process ''m1'' ''t0'' empty_db))"
proof -
  have r: "summary_processes (snd (create_process ''m1'' ''t0'' empty_db))
             = [new_process_row ''m1'' ''t0'']"
    by (simp add: create_process_def empty_db_def sql_update_def rowcount_def sql_insert_def)
  have n: "\<not> binds (Some (2 ^ 63))"
    by (simp add: binds_def sqlite_integer_def)
  from n
  have u: "update_process ''m2'' ''COMPLETED'' None None (Some (2 ^ 63)) None None ''t1''
             (snd (create_process ''m1'' ''t0'' empty_db))
           = (Inl too_large, snd (create_process ''m1'' ''t0'' empty_db))"
    by (rule update_process_raises)
  have h: "''m2'' \<notin> set (map p_meeting_id
              (summary_processes (snd (create_process ''m1'' ''t0'' empty_db))))"
    by (simp add: r new_process_row_def)
  from h u show ?thesis
    unfolding too_large_def by (rule conjI)
qed

text \<open>
  Claim C6, amended. When the meeting id has no row in \<^verbatim>\<open>summary_processes\<close>, the
  \<^verbatim>\<open>UPDATE\<close> of \<open>update_process\<close> matches zero rows and the database after the call is the
  database before it: no row is created and none is changed. The call returns normally
  when \<^verbatim>\<open>chunk_count\<close> is \<^verbatim>\<open>None\<close> or fits a signed 64-bit integer, and raises
  \<^verbatim>\<open>OverflowError\<close> otherwise.
\<close>

theorem update_process_missing_noop:
  assumes "m \<notin> set (map p_meeting_id (summary_processes s))"
  shows "rowcount (\<lambda>r. p_meeting_id r = m) (summary_processes s) = 0
       \<and> snd (update_process m status result error chunk_count processing_time metadata now s)
           = s
       \<and> (binds chunk_count \<longrightarrow>
            update_process m status result error chunk_count processing_time metadata now s
              = (Inr (), s))
       \<and> (\<not> binds chunk_count \<longrightarrow>
            update_process m status result error chunk_count processing_time metadata now s
              = (Inl too_large, s))
       \<and> (binds chunk_count \<longleftrightarrow>
            chunk_count = None
            \<or> (\<exists>n. chunk_count = Some n \<and> - (2 ^ 63) \<le> n \<and> n < 2 ^ 63))"
proof -
  from assms have none: "\<forall>r\<in>set (summary_processes s). \<not> p_meeting_id r = m"
    by auto
  then have "filter (\<lambda>r. p_meeting_id r = m) (summary_processes s) = []"
    by (simp add: filter_empty_conv)
  then have zero: "rowcount (\<lambda>r. p_meeting_id r = m) (summary_processes s) = 0"
    by (simp add: rowcount_def)
  have same: "sql_update (\<lambda>r. p_meeting_id r = m)
          (apply_fields
             (update_fields status result error chunk_count processing_time metadata now))
          (summary_processes s) = summary_processes s"
    using none by (rule sql_update_none)
  have ok: "binds chunk_count \<longrightarrow>
            update_process m status result error chunk_count processing_time metadata now s
              = (Inr (), s)"
    by (simp add: update_process_def same)
  have raises: "\<not> binds chunk_count \<longrightarrow>
            update_process m status result error chunk_count processing_time metadata now s
              = (Inl too_large, s)"
    by (simp add: update_process_raises)
  from ok raises
  have unchanged:
    "snd (update_process m status result error chunk_count processing_time metadata now s) = s"
    by (cases "binds chunk_count") simp_all
  from zero unchanged ok raises binds_iff [of chunk_count] show ?thesis
    by blast
qed

theorem update_process_missing_noop_witness:
  "''m2'' \<notin> set (map p_meeting_id
              (summary_processes (snd (create_process ''m1'' ''t0'' empty_db))))
   \<and> update_process ''m2'' ''COMPLETED'' (Some [(''summary'', JStr ''ok'')]) None (Some 12) None
        None ''t1'' (snd (create_process ''m1'' ''t0'' empty_db))
      = (Inr (), snd (create_process ''m1'' ''t0'' empty_db))
   \<and> update_process ''m2'' ''COMPLETED'' None None (Some (- (2 ^ 63) - 1)) None None ''t1''
        (snd (create_process ''m1'' ''t0'' empty_db))
      = (Inl too_large, snd (create_process ''m1'' ''t0'' empty_db))
   \<and> summary_processes (snd (create_process ''m1'' ''t0'' empty_db))
      = [new_process_row ''m1'' ''t0'']"
proof -
  have r: "summary_processes (snd (create_process ''m1'' ''t0'' empty_db))
             = [new_process_row ''m1'' ''t0'']"
    by (simp add: create_process_def empty_db_def sql_update_def rowcount_def sql_insert_def)
  then have h: "''m2'' \<notin> set (map p_meeting_id
                  (summary_processes (snd (create_process ''m1'' ''t0'' empty_db))))"
    by (simp add: new_process_row_def)
  have b: "binds (Some 12)"
    by (simp add: binds_def sqlite_integer_def)
  have n: "\<not> binds (Some (- (2 ^ 63) - 1))"
    by (simp add: binds_def sqlite_integer_def)
  from update_process_missing_noop [OF h, where chunk_count = "Some 12"] b
  have ok: "update_process ''m2'' ''COMPLETED'' (Some [(''summary'', JStr ''ok'')]) None (Some 12)
              None None ''t1'' (snd (create_process ''m1'' ''t0'' empty_db))
            = (Inr (), snd (create_process ''m1'' ''t0'' empty_db))"
    by blast
  from update_process_missing_noop [OF h, where chunk_count = "Some (- (2 ^ 63) - 1)"] n
  have bad: "update_process ''m2'' ''COMPLETED'' None None (Some (- (2 ^ 63) - 1)) None None ''t1''
              (snd (create_process ''m1'' ''t0'' empty_db))
            = (Inl too_large, snd (create_process ''m1'' ''t0'' empty_db))"
    by blast
  from h ok bad r show ?thesis
    by blast
qed

lemma apply_update_fields:
  "apply_fields (update_fields status result error chunk_count processing_time metadata now) r =
     r\<lparr>p_status := status, p_updated_at := now,
       p_result := (if truthy result then Some (Json_dumps (the result)) else p_result r),
       p_error := (if truthy error then error else p_error r),
       p_chunk_count := (if chunk_count \<noteq> None then chunk_count else p_chunk_count r),
       p_processing_time :=
         (if processing_time \<noteq> None then processing_time else p_processing_time r),
       p_metadata := (if truthy metadata then Some (Json_dumps (the metadata)) else p_metadata r),
       p_end_time := (if terminal status then Some now else p_end_time r)\<rparr>"
  by (simp add: apply_fields_def update_fields_def terminal_def)

lemma create_process_existing:
  assumes "process_rows m s \<noteq> []"
  shows "create_process m now s =
           (Inr m, s\<lparr>summary_processes :=
                        sql_update (\<lambda>r. p_meeting_id r = m)
                          (\<lambda>r. r\<lparr>p_status := ''PENDING'', p_updated_at := now,
                                 p_start_time := Some now, p_error := None, p_result := None\<rparr>)
                          (summary_processes s)\<rparr>)"
  using assms by (simp add: create_process_def process_rows_def rowcount_def Let_def)

lemma create_process_fresh:
  assumes "process_rows m s = []"
  shows "create_process m now s =
           (Inr m, s\<lparr>summary_processes := summary_processes s @ [new_process_row m now]\<rparr>)"
proof -
  from assms have none: "\<forall>r\<in>set (summary_processes s). \<not> p_meeting_id r = m"
    by (simp add: process_rows_def filter_empty_conv)
  then have upd:
    "sql_update (\<lambda>r. p_meeting_id r = m)
       (\<lambda>r. r\<lparr>p_status := ''PENDING'', p_updated_at := now,
              p_start_time := Some now, p_error := None, p_result := None\<rparr>)
       (summary_processes s) = summary_processes s"
    by (rule sql_update_none)
  from none have notin: "m \<notin> p_meeting_id ` set (summary_processes s)"
    by auto
  have key: "p_meeting_id (new_process_row m now) = m"
    by (simp add: new_process_row_def)
  show ?thesis
    using assms upd notin key
    by (simp add: create_process_def process_rows_def rowcount_def Let_def sql_insert_def)
qed

lemma create_process_returns: "fst (create_process m now s) = Inr m"
  by (cases "process_rows m s = []") (simp_all add: create_process_fresh create_process_existing)

lemma process_rows_create:
  "process_rows m (snd (create_process m now s)) =
     (if process_rows m s = [] then [new_process_row m now]
      else map (\<lambda>r. r\<lparr>p_status := ''PENDING'', p_updated_at := now,
                       p_start_time := Some now, p_error := None, p_result := None\<rparr>)
             (process_rows m s))"
proof (cases "process_rows m s = []")
  case True
  then show ?thesis
    by (simp add: create_process_fresh) (simp add: process_rows_def new_process_row_def)
next
  case False
  then show ?thesis
    by (simp add: create_process_existing) (simp add: process_rows_def filter_sql_update)
qed

lemma process_rows_update:
  "process_rows m
     (snd (update_process m status result error chunk_count processing_time metadata now s)) =
   (if binds chunk_count
    then map (apply_fields
                (update_fields status result error chunk_count processing_time metadata now))
           (process_rows m s)
    else process_rows m s)"
  by (simp add: update_process_def process_rows_def filter_sql_update apply_update_fields)

lemma distinct_key_rows:
  "distinct (map key rows) \<Longrightarrow> length (filter (\<lambda>r. key r = k) rows) \<le> 1"
  by (induction rows) (auto simp: filter_empty_conv image_iff)

lemma run_Nil: "run m [] s = s"
  by (simp add: run_def)

lemma run_Cons: "run m (c # cs) s = run m cs (step m c s)"
  by (simp add: run_def)

lemmas eval_process =
  run_def create_process_def update_process_def empty_db_def sql_update_def rowcount_def
  sql_insert_def new_process_row_def apply_fields_def update_fields_def truthy_def
  process_rows_def terminal_def binds_def sqlite_integer_def

lemma summary_processes_db_completed:
  "summary_processes db_completed =
     [\<lparr>p_meeting_id = ''m1'', p_status = ''COMPLETED'', p_created_at = ''t0'',
       p_updated_at = ''t1'', p_error = None,
       p_result = Some (Json_dumps [(''summary'', JStr ''ok'')]), p_start_time = Some ''t0'',
       p_end_time = Some ''t1'', p_chunk_count = Some 0, p_processing_time = Some 0,
       p_metadata = None\<rparr>]"
  by (simp add: db_completed_def eval_process)

lemma summary_processes_db_failed:
  "summary_processes db_failed =
     [\<lparr>p_meeting_id = ''m1'', p_status = ''FAILED'', p_created_at = ''t0'',
       p_updated_at = ''t1'', p_error = Some ''boom'', p_result = None,
       p_start_time = Some ''t0'', p_end_time = Some ''t1'', p_chunk_count = Some 0,
       p_processing_time = Some 0, p_metadata = None\<rparr>]"
  by (simp add: db_failed_def eval_process)

subsection \<open>One row per meeting\<close>

lemma creates_single:
  "process_rows m s = [r] \<Longrightarrow>
   process_rows m (run m (map Create nows) s) =
     [if nows = [] then r
      else r\<lparr>p_status := ''PENDING'', p_updated_at := last nows,
              p_start_time := Some (last nows), p_error := None, p_result := None\<rparr>]"
proof (induction nows arbitrary: s r)
  case Nil
  then show ?case by (simp add: run_Nil)
next
  case (Cons now nows)
  have one: "process_rows m (snd (create_process m now s)) =
               [r\<lparr>p_status := ''PENDING'', p_updated_at := now,
                  p_start_time := Some now, p_error := None, p_result := None\<rparr>]"
    using Cons.prems by (simp add: process_rows_create)
  have "run m (map Create (now # nows)) s
          = run m (map Create nows) (snd (create_process m now s))"
    by (simp add: run_Cons)
  then show ?case
    using Cons.IH [OF one] by simp
qed

text \<open>
  Claim C4. In a process table whose primary key holds (no two rows share a meeting
  id), after any non-empty sequence of \<open>create_process\<close> calls on a meeting, taken at the
  clock readings \<open>nows\<close>, the meeting has exactly one row; its status is PENDING, its error
  and result are NULL, its \<open>updated_at\<close> and \<open>start_time\<close> are the last call's clock reading
  and its \<open>created_at\<close> is the one the row had before the calls (the first call's clock
  reading when there was no row). Every call returns the meeting id. One call on
  existing rows rewrites status, \<open>updated_at\<close>, \<open>start_time\<close>, error and result and no other
  column, so \<open>created_at\<close> is preserved; with no row it inserts the fresh PENDING row.
\<close>

theorem create_process_single_pending:
  assumes "distinct (map p_meeting_id (summary_processes s))" and "nows \<noteq> []"
  shows "(\<exists>r. process_rows m (run m (map Create nows) s) = [r]
            \<and> p_status r = ''PENDING'' \<and> p_error r = None \<and> p_result r = None
            \<and> p_updated_at r = last nows \<and> p_start_time r = Some (last nows)
            \<and> p_created_at r =
                (case process_rows m s of [] \<Rightarrow> hd nows | r0 # _ \<Rightarrow> p_created_at r0))
       \<and> fst (create_process m now s) = Inr m
       \<and> process_rows m (snd (create_process m now s)) =
           (if process_rows m s = [] then [new_process_row m now]
            else map (\<lambda>r. r\<lparr>p_status := ''PENDING'', p_updated_at := now,
                             p_start_time := Some now, p_error := None, p_result := None\<rparr>)
                   (process_rows m s))"
proof -
  from assms(2) obtain t ts where nows: "nows = t # ts"
    by (cases nows) auto
  have le: "length (process_rows m s) \<le> 1"
    using distinct_key_rows [OF assms(1), of m] by (simp add: process_rows_def)
  define s1 where "s1 = snd (create_process m t s)"
  define r1 where
    "r1 = (case process_rows m s of
             [] \<Rightarrow> new_process_row m t
           | r0 # _ \<Rightarrow> r0\<lparr>p_status := ''PENDING'', p_updated_at := t,
                          p_start_time := Some t, p_error := None, p_result := None\<rparr>)"
  have first: "process_rows m s1 = [r1]"
    using le unfolding s1_def r1_def
    by (cases "process_rows m s") (simp_all add: process_rows_create)
  have r1: "p_status r1 = ''PENDING'' \<and> p_error r1 = None \<and> p_result r1 = None
            \<and> p_updated_at r1 = t \<and> p_start_time r1 = Some t
            \<and> p_created_at r1 =
                (case process_rows m s of [] \<Rightarrow> t | r0 # _ \<Rightarrow> p_created_at r0)"
    unfolding r1_def by (cases "process_rows m s") (simp_all add: new_process_row_def)
  have run: "run m (map Create nows) s = run m (map Create ts) s1"
    by (simp add: nows run_Cons s1_def)
  define r where
    "r = (if ts = [] then r1
          else r1\<lparr>p_status := ''PENDING'', p_updated_at := last ts,
                  p_start_time := Some (last ts), p_error := None, p_result := None\<rparr>)"
  have final: "process_rows m (run m (map Create nows) s) = [r]"
    unfolding run r_def by (rule creates_single [OF first])
  have lst: "last nows = (if ts = [] then t else last ts)" and hd: "hd nows = t"
    by (simp_all add: nows)
  have fields: "p_status r = ''PENDING'' \<and> p_error r = None \<and> p_result r = None
            \<and> p_updated_at r = last nows \<and> p_start_time r = Some (last nows)
            \<and> p_created_at r =
                (case process_rows m s of [] \<Rightarrow> hd nows | r0 # _ \<Rightarrow> p_created_at r0)"
    using r1 unfolding r_def lst hd by simp
  from final fields
  have "\<exists>r. process_rows m (run m (map Create nows) s) = [r]
            \<and> p_status r = ''PENDING'' \<and> p_error r = None \<and> p_result r = None
            \<and> p_updated_at r = last nows \<and> p_start_time r = Some (last nows)
            \<and> p_created_at r =
                (case process_rows m s of [] \<Rightarrow> hd nows | r0 # _ \<Rightarrow> p_created_at r0)"
    by blast
  then show ?thesis
    by (simp add: create_process_returns process_rows_create)
qed

theorem create_process_single_pending_witness:
  "distinct (map p_meeting_id (summary_processes db_completed))
   \<and> process_rows ''m1'' (run ''m1'' (map Create [''t2'', ''t3'']) db_completed) =
       [\<lparr>p_meeting_id = ''m1'', p_status = ''PENDING'', p_created_at = ''t0'',
         p_updated_at = ''t3'', p_error = None, p_result = None, p_start_time = Some ''t3'',
         p_end_time = Some ''t1'', p_chunk_count = Some 0, p_processing_time = Some 0,
         p_metadata = None\<rparr>]
   \<and> fst (create_process ''m1'' ''t2'' db_completed) = Inr ''m1''"
proof -
  have d: "distinct (map p_meeting_id (summary_processes db_completed))"
    by (simp add: summary_processes_db_completed)
  have n: "[''t2'', ''t3''] \<noteq> []"
    by simp
  have rows: "process_rows ''m1'' (run ''m1'' (map Create [''t2'', ''t3'']) db_completed) =
       [\<lparr>p_meeting_id = ''m1'', p_status = ''PENDING'', p_created_at = ''t0'',
         p_updated_at = ''t3'', p_error = None, p_result = None, p_start_time = Some ''t3'',
         p_end_time = Some ''t1'', p_chunk_count = Some 0, p_processing_time = Some 0,
         p_metadata = None\<rparr>]"
    by (simp add: db_completed_def eval_process)
  from create_process_single_pending [OF d n, of "''m1''" "''t2''"] d rows
  show ?thesis by simp
qed

subsection \<open>The end time\<close>

lemma not_terminal_PENDING: "\<not> terminal ''PENDING''"
  by (simp add: terminal_def)

lemma end_times_update:
  "map p_end_time
     (process_rows m
        (step m (Update now status result error chunk_count processing_time metadata) s))
     = map (\<lambda>r. if terminal status \<and> binds chunk_count then Some now else p_end_time r)
         (process_rows m s)"
  by (simp add: process_rows_update apply_update_fields)

lemma end_times_create:
  "map p_end_time (process_rows m (step m (Create now) s))
     = (if process_rows m s = [] then [None] else map p_end_time (process_rows m s))"
  by (simp add: process_rows_create new_process_row_def)

lemma step_terminal_stamped:
  assumes "\<forall>r\<in>set (process_rows m s). terminal (p_status r) \<longrightarrow> p_end_time r \<noteq> None"
  shows "\<forall>r\<in>set (process_rows m (step m c s)). terminal (p_status r) \<longrightarrow> p_end_time r \<noteq> None"
proof (cases c)
  case (Create now)
  then show ?thesis
    by (auto simp: process_rows_create new_process_row_def not_terminal_PENDING)
next
  case (Update now status result error chunk_count processing_time metadata)
  then show ?thesis
    using assms by (auto simp: process_rows_update apply_update_fields)
qed

lemma run_terminal_stamped:
  "\<forall>r\<in>set (process_rows m s). terminal (p_status r) \<longrightarrow> p_end_time r \<noteq> None \<Longrightarrow>
   \<forall>r\<in>set (process_rows m (run m calls s)). terminal (p_status r) \<longrightarrow> p_end_time r \<noteq> None"
proof (induction calls arbitrary: s)
  case Nil
  then show ?case by (simp add: run_Nil)
next
  case (Cons c calls)
  from Cons.prems
  have "\<forall>r\<in>set (process_rows m (step m c s)). terminal (p_status r) \<longrightarrow> p_end_time r \<noteq> None"
    by (rule step_terminal_stamped)
  then show ?case
    unfolding run_Cons by (rule Cons.IH)
qed

lemma step_unstamped:
  assumes "\<forall>r\<in>set (process_rows m s). p_end_time r = None" and "\<not> stamps c"
  shows "\<forall>r\<in>set (process_rows m (step m c s)). p_end_time r = None"
proof (cases c)
  case (Create now)
  then show ?thesis
    using assms(1) by (auto simp: process_rows_create new_process_row_def)
next
  case (Update now status result error chunk_count processing_time metadata)
  then show ?thesis
    using assms by (auto simp: process_rows_update apply_update_fields)
qed

lemma run_unstamped:
  "\<forall>r\<in>set (process_rows m s). p_end_time r = None \<Longrightarrow> \<forall>c\<in>set calls. \<not> stamps c \<Longrightarrow>
   \<forall>r\<in>set (process_rows m (run m calls s)). p_end_time r = None"
proof (induction calls arbitrary: s)
  case Nil
  then show ?case by (simp add: run_Nil)
next
  case (Cons c calls)
  from Cons.prems have "\<not> stamps c"
    by simp
  with Cons.prems(1) have "\<forall>r\<in>set (process_rows m (step m c s)). p_end_time r = None"
    by (rule step_unstamped)
  moreover from Cons.prems have "\<forall>c\<in>set calls. \<not> stamps c"
    by simp
  ultimately show ?case
    unfolding run_Cons by (rule Cons.IH)
qed

lemma step_update_raises:
  "\<not> binds chunk_count \<Longrightarrow>
   step m (Update now status result error chunk_count processing_time metadata) s = s"
  by (simp add: update_process_raises)

text \<open>
  Claim C1, as stated, fails: after \<open>create_process\<close>, an \<open>update_process\<close> to COMPLETED and
  a second \<open>create_process\<close>, the row is PENDING and still carries the end time of the
  completed run, because the \<^verbatim>\<open>UPDATE\<close> of \<open>create_process\<close> does not list \<^verbatim>\<open>end_time\<close>.
\<close>

theorem end_time_iff_terminal_counterexample:
  "map (\<lambda>r. (p_status r, p_end_time r))
     (process_rows ''m1''
        (run ''m1'' [Create ''t0'', Update ''t1'' ''COMPLETED'' None None None None None,
                     Create ''t2''] empty_db))
     = [(''PENDING'', Some ''t1'')]
   \<and> \<not> terminal ''PENDING''"
  by (simp add: eval_process)

text \<open>
  Claim C1, amended. The end time is written by an \<open>update_process\<close> call whose status is
  COMPLETED or FAILED and that does not raise (its \<^verbatim>\<open>chunk_count\<close> is \<^verbatim>\<open>None\<close> or fits a
  signed 64-bit integer): it sets the end time of the meeting's rows to its own clock
  reading. No other call writes it: \<open>update_process\<close> with another status keeps the stored
  end time, an \<open>update_process\<close> that raises \<^verbatim>\<open>OverflowError\<close> writes nothing, \<open>create_process\<close>
  on an existing row keeps the stored end time, and the row \<open>create_process\<close> inserts has
  none. Hence, for every sequence of \<open>create_process\<close> and \<open>update_process\<close> calls on the
  meeting:

    \<^item> if at the start every row of the meeting with a terminal status has an end time
      (a database with no row for the meeting is one), then at the end a row whose
      status is COMPLETED or FAILED has a non-null end time;

    \<^item> if at the start no row of the meeting has an end time (again, a database with no
      row for the meeting is one) and no call of the sequence is an \<open>update_process\<close>
      with a terminal status that does not raise, then at the end no row of the
      meeting has an end time. Without the starting condition this fails: a PENDING
      row may carry the end time of an earlier run, as in the counterexample.
\<close>

theorem end_time_stamping:
  "((\<forall>r\<in>set (process_rows m s). terminal (p_status r) \<longrightarrow> p_end_time r \<noteq> None)
      \<longrightarrow> (\<forall>r\<in>set (process_rows m (run m calls s)).
             terminal (p_status r) \<longrightarrow> p_end_time r \<noteq> None))
   \<and> ((\<forall>r\<in>set (process_rows m s). p_end_time r = None) \<and> (\<forall>c\<in>set calls. \<not> stamps c)
      \<longrightarrow> (\<forall>r\<in>set (process_rows m (run m calls s)). p_end_time r = None))
   \<and> map p_end_time
       (process_rows m
          (step m (Update now status result error chunk_count processing_time metadata) s))
       = map (\<lambda>r. if terminal status \<and> binds chunk_count then Some now else p_end_time r)
           (process_rows m s)
   \<and> (\<not> binds chunk_count \<longrightarrow>
        step m (Update now status result error chunk_count processing_time metadata) s = s)
   \<and> map p_end_time (process_rows m (step m (Create now) s))
       = (if process_rows m s = [] then [None] else map p_end_time (process_rows m s))
   \<and> (binds chunk_count \<longleftrightarrow>
        chunk_count = None
        \<or> (\<exists>n. chunk_count = Some n \<and> - (2 ^ 63) \<le> n \<and> n < 2 ^ 63))"
  using run_terminal_stamped [of m s calls] run_unstamped [of m s calls]
    end_times_update [of m now status result error chunk_count processing_time metadata s]
    step_update_raises [of chunk_count m now status result error processing_time metadata s]
    end_times_create [of m now s] binds_iff [of chunk_count]
  by blast

theorem end_time_stamping_witness:
  "process_rows ''m1'' empty_db = []
   \<and> map (\<lambda>r. (p_status r, p_end_time r))
       (process_rows ''m1''
          (run ''m1'' [Create ''t0'', Update ''t1'' ''FAILED'' None (Some ''boom'') None None None]
             empty_db))
       = [(''FAILED'', Some ''t1'')]
   \<and> map (\<lambda>r. (p_status r, p_end_time r))
       (process_rows ''m1''
          (run ''m1'' [Create ''t0'', Update ''t1'' ''PROCESSING'' None None None None None]
             empty_db))
       = [(''PROCESSING'', None)]
   \<and> map (\<lambda>r. (p_status r, p_end_time r))
       (process_rows ''m1''
          (run ''m1'' [Create ''t0'', Update ''t1'' ''COMPLETED'' None None (Some (2 ^ 63)) None None]
             empty_db))
       = [(''PENDING'', None)]"
proof -
  have e0: "process_rows ''m1'' empty_db = []"
    by (simp add: process_rows_def empty_db_def)
  have e1: "map (\<lambda>r. (p_status r, p_end_time r))
       (process_rows ''m1''
          (run ''m1'' [Create ''t0'', Update ''t1'' ''FAILED'' None (Some ''boom'') None None None]
             empty_db))
       = [(''FAILED'', Some ''t1'')]"
    by (simp add: eval_process)
  have e2: "map (\<lambda>r. (p_status r, p_end_time r))
       (process_rows ''m1''
          (run ''m1'' [Create ''t0'', Update ''t1'' ''PROCESSING'' None None None None None]
             empty_db))
       = [(''PROCESSING'', None)]"
    by (simp add: eval_process)
  have e3: "map (\<lambda>r. (p_status r, p_end_time r))
       (process_rows ''m1''
          (run ''m1'' [Create ''t0'', Update ''t1'' ''COMPLETED'' None None (Some (2 ^ 63)) None None]
             empty_db))
       = [(''PENDING'', None)]"
    by (simp add: eval_process)
  have h1: "\<forall>r\<in>set (process_rows ''m1'' empty_db).
              terminal (p_status r) \<longrightarrow> p_end_time r \<noteq> None"
    by (simp add: e0)
  have h2: "(\<forall>r\<in>set (process_rows ''m1'' empty_db). p_end_time r = None)
            \<and> (\<forall>c\<in>set [Create ''t0'', Update ''t1'' ''PROCESSING'' None None None None None].
                 \<not> stamps c)"
    by (simp add: e0 terminal_def)
  have "(\<forall>r\<in>set (process_rows ''m1'' empty_db).
            terminal (p_status r) \<longrightarrow> p_end_time r \<noteq> None)
        \<longrightarrow> (\<forall>r\<in>set (process_rows ''m1''
                (run ''m1'' [Create ''t0'',
                             Update ''t1'' ''FAILED'' None (Some ''boom'') None None None]
                   empty_db)).
              terminal (p_status r) \<longrightarrow> p_end_time r \<noteq> None)"
    using end_time_stamping [of "''m1''" empty_db
      "[Create ''t0'', Update ''t1'' ''FAILED'' None (Some ''boom'') None None None]"]
    by (rule conjunct1)
  from this h1
  have c1: "\<forall>r\<in>set (process_rows ''m1''
                (run ''m1'' [Create ''t0'',
                             Update ''t1'' ''FAILED'' None (Some ''boom'') None None None]
                   empty_db)).
              terminal (p_status r) \<longrightarrow> p_end_time r \<noteq> None"
    by (rule mp)
  have "(\<forall>r\<in>set (process_rows ''m1'' empty_db). p_end_time r = None)
        \<and> (\<forall>c\<in>set [Create ''t0'', Update ''t1'' ''PROCESSING'' None None None None None].
             \<not> stamps c)
        \<longrightarrow> (\<forall>r\<in>set (process_rows ''m1''
                (run ''m1'' [Create ''t0'',
                             Update ''t1'' ''PROCESSING'' None None None None None]
                   empty_db)).
              p_end_time r = None)"
    using end_time_stamping [of "''m1''" empty_db
      "[Create ''t0'', Update ''t1'' ''PROCESSING'' None None None None None]",
      THEN conjunct2]
    by (rule conjunct1)
  from this h2
  have c2: "\<forall>r\<in>set (process_rows ''m1''
                (run ''m1'' [Create ''t0'',
                             Update ''t1'' ''PROCESSING'' None None None None None]
                   empty_db)).
              p_end_time r = None"
    by (rule mp)
  from c1 c2 e0 e1 e2 e3 show ?thesis
    by blast
qed

subsection \<open>Partial update\<close>

text \<open>
  Claim C5, as stated, fails: an error message, a result or a metadata document that is
  supplied but empty is not written. Here the failed process keeps its error
  \<^verbatim>\<open>'boom'\<close> although the call supplies the error \<^verbatim>\<open>''\<close>, and its result and metadata
  stay NULL although the call supplies \<^verbatim>\<open>{}\<close> for both.
\<close>

theorem update_process_supplied_counterexample:
  "map (\<lambda>r. (p_error r, p_result r, p_metadata r))
     (process_rows ''m1''
        (snd (update_process ''m1'' ''FAILED'' (Some []) (Some '''') None None (Some []) ''t2''
                db_failed)))
     = [(Some ''boom'', None, None)]"
  by (simp add: db_failed_def eval_process)

text \<open>
  Claim C5, amended. A call of \<open>update_process\<close> whose \<^verbatim>\<open>chunk_count\<close> is \<^verbatim>\<open>None\<close> or fits a
  signed 64-bit integer returns and rewrites every row of the meeting: status and
  \<open>updated_at\<close> always; result, error and metadata exactly when the argument is supplied
  and not empty (Python's truth value); \<open>chunk_count\<close> and \<open>processing_time\<close> exactly when the
  argument is supplied (not \<^verbatim>\<open>None\<close>, so 0 is written); the end time exactly when the
  status is COMPLETED or FAILED, to the clock reading of the call. Every other column
  and every other row is unchanged. A call with any other \<^verbatim>\<open>chunk_count\<close> raises
  \<^verbatim>\<open>OverflowError\<close> and writes nothing, not even status and \<open>updated_at\<close>.
\<close>

theorem update_process_partial:
  "update_process m status result error chunk_count processing_time metadata now s =
     (if binds chunk_count
      then (Inr (),
            s\<lparr>summary_processes :=
              map (\<lambda>r. if p_meeting_id r = m
                       then r\<lparr>p_status := status, p_updated_at := now,
                              p_result := (if truthy result then Some (Json_dumps (the result))
                                           else p_result r),
                              p_error := (if truthy error then error else p_error r),
                              p_chunk_count := (if chunk_count \<noteq> None then chunk_count
                                                else p_chunk_count r),
                              p_processing_time := (if processing_time \<noteq> None
                                                    then processing_time
                                                    else p_processing_time r),
                              p_metadata := (if truthy metadata
                                             then Some (Json_dumps (the metadata))
                                             else p_metadata r),
                              p_end_time := (if status = ''COMPLETED'' \<or> status = ''FAILED''
                                             then Some now else p_end_time r)\<rparr>
                       else r)
                (summary_processes s)\<rparr>)
      else (Inl (OverflowError ''Python int too large to convert to SQLite INTEGER''), s))
   \<and> (binds chunk_count \<longleftrightarrow>
        chunk_count = None
        \<or> (\<exists>n. chunk_count = Some n \<and> - (2 ^ 63) \<le> n \<and> n < 2 ^ 63))
   \<and> (truthy result \<longleftrightarrow> result \<noteq> None \<and> result \<noteq> Some [])
   \<and> (truthy error \<longleftrightarrow> error \<noteq> None \<and> error \<noteq> Some [])
   \<and> (truthy metadata \<longleftrightarrow> metadata \<noteq> None \<and> metadata \<noteq> Some [])"
proof -
  have t: "\<And>v :: 'b list option. truthy v \<longleftrightarrow> v \<noteq> None \<and> v \<noteq> Some []"
    by (simp add: truthy_def split: option.split)
  have u: "update_process m status result error chunk_count processing_time metadata now s =
     (if binds chunk_count
      then (Inr (),
            s\<lparr>summary_processes :=
              map (\<lambda>r. if p_meeting_id r = m
                       then r\<lparr>p_status := status, p_updated_at := now,
                              p_result := (if truthy result then Some (Json_dumps (the result))
                                           else p_result r),
                              p_error := (if truthy error then error else p_error r),
                              p_chunk_count := (if chunk_count \<noteq> None then chunk_count
                                                else p_chunk_count r),
                              p_processing_time := (if processing_time \<noteq> None
                                                    then processing_time
                                                    else p_processing_time r),
                              p_metadata := (if truthy metadata
                                             then Some (Json_dumps (the metadata))
                                             else p_metadata r),
                              p_end_time := (if status = ''COMPLETED'' \<or> status = ''FAILED''
                                             then Some now else p_end_time r)\<rparr>
                       else r)
                (summary_processes s)\<rparr>)
      else (Inl (OverflowError ''Python int too large to convert to SQLite INTEGER''), s))"
    by (simp add: update_process_def sql_update_def apply_update_fields terminal_def
          too_large_def)
  from u binds_iff [of chunk_count] t [of result] t [of error] t [of metadata] show ?thesis
    by (intro conjI)
qed

section \<open>Properties of the transcript accumulation\<close>

lemmas eval_transcript =
  save_transcript_def save_meeting_def update_meeting_name_def empty_db_def fetchone_def
  sql_insert_def sql_insert_or_replace_def sql_update_def chunk_rows_def sqlite_integer_def

lemma save_transcript_rows:
  assumes "sqlite_integer chunk_size" and "sqlite_integer overlap"
  shows "chunk_rows m (snd (save_transcript m text model model_name chunk_size overlap now s)) =
     [\<lparr>c_meeting_id = m, c_meeting_name = None,
       c_transcript_text =
         (case chunk_rows m s of [] \<Rightarrow> [] | r # _ \<Rightarrow> c_transcript_text r) @ text,
       c_model = model, c_model_name = model_name, c_chunk_size = Some chunk_size,
       c_overlap = Some overlap, c_created_at = now\<rparr>]"
  using assms
  by (cases "filter (\<lambda>r. c_meeting_id r = m) (transcript_chunks s)")
     (simp_all add: save_transcript_def sql_insert_or_replace_def chunk_rows_def fetchone_def)

lemma save_transcript_returns:
  "sqlite_integer chunk_size \<Longrightarrow> sqlite_integer overlap \<Longrightarrow>
   fst (save_transcript m text model model_name chunk_size overlap now s) = Inr ()"
  by (simp add: save_transcript_def Let_def)

lemma save_transcript_raises:
  "\<not> (sqlite_integer chunk_size \<and> sqlite_integer overlap) \<Longrightarrow>
   save_transcript m text model model_name chunk_size overlap now s = (Inl too_large, s)"
  by (simp add: save_transcript_def Let_def)

text \<open>
  Claim C2 is what the comments of \<open>save_transcript\<close> intend (only \<^verbatim>\<open>model\<close>,
  \<^verbatim>\<open>model_name\<close>, \<^verbatim>\<open>chunk_size\<close> and \<^verbatim>\<open>overlap\<close> are meant to be overwritten), but the
  code does not do it: \<^verbatim>\<open>INSERT OR REPLACE\<close> deletes the row and writes one without
  \<^verbatim>\<open>meeting_name\<close>. The buffer of the renamed meeting carries the name \<^verbatim>\<open>Weekly\<close>; after
  one more \<open>save_transcript\<close> the name is NULL.
\<close>

theorem save_transcript_drops_meeting_name:
  "map c_meeting_name (chunk_rows ''m1'' db_renamed) = [Some ''Weekly'']
   \<and> map c_meeting_name
       (chunk_rows ''m1''
          (snd (save_transcript ''m1'' ''<p>more</p>'' ''gpt-4o-mini'' ''gpt-4o-mini'' 1000 100
                  ''t3'' db_renamed)))
     = [None]"
  by (simp add: db_renamed_def db_chunk_def eval_transcript)

text \<open>
  Claim C3, as stated, fails for a meeting that already has text in its buffer: the two
  saves put their texts after the text that is there.
\<close>

theorem save_transcript_twice_counterexample:
  "map c_transcript_text
     (chunk_rows ''m1''
        (snd (save_transcript ''m1'' ''b'' ''gpt-4o'' ''gpt-4o'' 500 50 ''t3''
                (snd (save_transcript ''m1'' ''a'' ''gpt-4o-mini'' ''gpt-4o-mini'' 1000 100 ''t2''
                        db_chunk)))))
     = [''<p>hello</p>ab'']"
  by (simp add: db_chunk_def eval_transcript)

text \<open>
  Claim C3, amended. For every meeting and all strings \<open>a\<close> and \<open>b\<close>, when the chunk size
  and the overlap of both calls fit a signed 64-bit integer, \<open>save_transcript\<close> with \<open>a\<close>
  and then with \<open>b\<close> returns both times and leaves the meeting with exactly one buffer
  row; its text is the text stored before the two calls followed by \<open>a\<close> and then \<open>b\<close>,
  which is \<open>a @ b\<close> when the meeting had no buffer row; its model, model name, chunk
  size, overlap and creation time are those of the second call. A call whose chunk size
  or overlap does not fit raises \<^verbatim>\<open>OverflowError\<close> and leaves the database as it was.
\<close>

theorem save_transcript_twice:
  "(sqlite_integer chunk_size1 \<and> sqlite_integer overlap1
    \<and> sqlite_integer chunk_size2 \<and> sqlite_integer overlap2 \<longrightarrow>
      fst (save_transcript m a model1 model_name1 chunk_size1 overlap1 now1 s) = Inr ()
      \<and> fst (save_transcript m b model2 model_name2 chunk_size2 overlap2 now2
               (snd (save_transcript m a model1 model_name1 chunk_size1 overlap1 now1 s)))
          = Inr ()
      \<and> chunk_rows m
          (snd (save_transcript m b model2 model_name2 chunk_size2 overlap2 now2
                  (snd (save_transcript m a model1 model_name1 chunk_size1 overlap1 now1 s)))) =
          [\<lparr>c_meeting_id = m, c_meeting_name = None,
            c_transcript_text =
              (case chunk_rows m s of [] \<Rightarrow> a @ b | r # _ \<Rightarrow> c_transcript_text r @ a @ b),
            c_model = model2, c_model_name = model_name2, c_chunk_size = Some chunk_size2,
            c_overlap = Some overlap2, c_created_at = now2\<rparr>])
   \<and> (\<not> (sqlite_integer chunk_size1 \<and> sqlite_integer overlap1) \<longrightarrow>
        save_transcript m a model1 model_name1 chunk_size1 overlap1 now1 s
          = (Inl (OverflowError ''Python int too large to convert to SQLite INTEGER''), s))
   \<and> (sqlite_integer chunk_size1 \<longleftrightarrow> - (2 ^ 63) \<le> chunk_size1 \<and> chunk_size1 < 2 ^ 63)"
proof -
  have rows: "chunk_rows m
          (snd (save_transcript m b model2 model_name2 chunk_size2 overlap2 now2
                  (snd (save_transcript m a model1 model_name1 chunk_size1 overlap1 now1 s)))) =
          [\<lparr>c_meeting_id = m, c_meeting_name = None,
            c_transcript_text =
              (case chunk_rows m s of [] \<Rightarrow> a @ b | r # _ \<Rightarrow> c_transcript_text r @ a @ b),
            c_model = model2, c_model_name = model_name2, c_chunk_size = Some chunk_size2,
            c_overlap = Some overlap2, c_created_at = now2\<rparr>]"
    if "sqlite_integer chunk_size1" "sqlite_integer overlap1"
       "sqlite_integer chunk_size2" "sqlite_integer overlap2"
    using that by (cases "chunk_rows m s") (simp_all add: save_transcript_rows)
  have raises: "save_transcript m a model1 model_name1 chunk_size1 overlap1 now1 s
          = (Inl (OverflowError ''Python int too large to convert to SQLite INTEGER''), s)"
    if "\<not> (sqlite_integer chunk_size1 \<and> sqlite_integer overlap1)"
    using that by (simp add: save_transcript_raises too_large_def)
  have range: "sqlite_integer chunk_size1 \<longleftrightarrow> - (2 ^ 63) \<le> chunk_size1 \<and> chunk_size1 < 2 ^ 63"
    by (simp add: sqlite_integer_def)
  from rows raises range
    save_transcript_returns [of chunk_size1 overlap1 m a model1 model_name1 now1 s]
    save_transcript_returns [of chunk_size2 overlap2 m b model2 model_name2 now2
      "snd (save_transcript m a model1 model_name1 chunk_size1 overlap1 now1 s)"]
  show ?thesis
    by blast
qed

theorem save_transcript_twice_witness:
  "map c_transcript_text
     (chunk_rows ''m1''
        (snd (save_transcript ''m1'' ''b'' ''gpt-4o'' ''gpt-4o'' 500 50 ''t2''
                (snd (save_transcript ''m1'' ''a'' ''gpt-4o-mini'' ''gpt-4o-mini'' 1000 100 ''t1''
                        empty_db)))))
     = [''ab'']
   \<and> save_transcript ''m1'' ''a'' ''gpt-4o-mini'' ''gpt-4o-mini'' (2 ^ 63) 100 ''t1'' empty_db
     = (Inl (OverflowError ''Python int too large to convert to SQLite INTEGER''), empty_db)"
proof -
  have e0: "chunk_rows ''m1'' empty_db = []"
    by (simp add: chunk_rows_def empty_db_def)
  have h: "sqlite_integer 1000 \<and> sqlite_integer 100 \<and> sqlite_integer 500 \<and> sqlite_integer 50"
    by (simp add: sqlite_integer_def)
  have n: "\<not> (sqlite_integer (2 ^ 63) \<and> sqlite_integer 100)"
    by (simp add: sqlite_integer_def)
  from h save_transcript_twice [of 1000 100 500 50 "''m1''" "''a''" "''gpt-4o-mini''"
      "''gpt-4o-mini''" "''t1''" empty_db "''b''" "''gpt-4o''" "''gpt-4o''" "''t2''"]
  have rows: "chunk_rows ''m1''
        (snd (save_transcript ''m1'' ''b'' ''gpt-4o'' ''gpt-4o'' 500 50 ''t2''
                (snd (save_transcript ''m1'' ''a'' ''gpt-4o-mini'' ''gpt-4o-mini'' 1000 100 ''t1''
                        empty_db)))) =
          [\<lparr>c_meeting_id = ''m1'', c_meeting_name = None,
            c_transcript_text =
              (case chunk_rows ''m1'' empty_db of [] \<Rightarrow> ''a'' @ ''b''
               | r # _ \<Rightarrow> c_transcript_text r @ ''a'' @ ''b''),
            c_model = ''gpt-4o'', c_model_name = ''gpt-4o'', c_chunk_size = Some 500,
            c_overlap = Some 50, c_created_at = ''t2''\<rparr>]"
    by blast
  have one: "map c_transcript_text
     (chunk_rows ''m1''
        (snd (save_transcript ''m1'' ''b'' ''gpt-4o'' ''gpt-4o'' 500 50 ''t2''
                (snd (save_transcript ''m1'' ''a'' ''gpt-4o-mini'' ''gpt-4o-mini'' 1000 100 ''t1''
                        empty_db)))))
     = [''ab'']"
    unfolding rows e0 by simp
  from n save_transcript_twice [of "2 ^ 63" 100 0 0 "''m1''" "''a''" "''gpt-4o-mini''"
      "''gpt-4o-mini''" "''t1''" empty_db "[]" "[]" "[]" "[]"]
  have two: "save_transcript ''m1'' ''a'' ''gpt-4o-mini'' ''gpt-4o-mini'' (2 ^ 63) 100 ''t1'' empty_db
     = (Inl (OverflowError ''Python int too large to convert to SQLite INTEGER''), empty_db)"
    by blast
  from one two show ?thesis
    by blast
qed

subsection \<open>Reading the buffer with its process\<close>

lemma joined_rows:
  "concat (map (\<lambda>t. map (\<lambda>p. (t, p_status p, p_result p))
                  (filter (\<lambda>p. c_meeting_id t = p_meeting_id p) (summary_processes s)))
             (filter (\<lambda>t. c_meeting_id t = m) (transcript_chunks s)))
   = concat (map (\<lambda>t. map (\<lambda>p. (t, p_status p, p_result p)) (process_rows m s))
               (chunk_rows m s))"
proof -
  have "\<And>t. t \<in> set (chunk_rows m s) \<Longrightarrow>
          filter (\<lambda>p. c_meeting_id t = p_meeting_id p) (summary_processes s) = process_rows m s"
    by (auto simp: chunk_rows_def process_rows_def intro: filter_cong)
  then show ?thesis
    unfolding chunk_rows_def [symmetric] by (simp cong: map_cong)
qed

lemma concat_no_rows: "concat (map (\<lambda>t. []) xs) = []"
  by (induction xs) simp_all

lemma get_transcript_data_first:
  "fst (get_transcript_data m s) =
     (case chunk_rows m s of
        [] \<Rightarrow> None
      | t # _ \<Rightarrow> (case process_rows m s of
                    [] \<Rightarrow> None
                  | p # _ \<Rightarrow> Some (t, p_status p, p_result p)))"
proof (cases "process_rows m s")
  case Nil
  then show ?thesis
    by (simp add: get_transcript_data_def joined_rows fetchone_def concat_no_rows
             split: list.split)
next
  case (Cons p ps)
  then show ?thesis
    by (simp add: get_transcript_data_def joined_rows fetchone_def split: list.split)
qed

text \<open>
  Claim C9. \<open>get_transcript_data\<close> returns a record exactly when the meeting has a row in
  \<^verbatim>\<open>transcript_chunks\<close> and a row in \<^verbatim>\<open>summary_processes\<close>: the record is the buffer row
  with the status and the result of the process. The database is not changed. The
  meeting of scenario A, with a saved chunk and no process, gets \<^verbatim>\<open>None\<close>.
\<close>

theorem get_transcript_data_inner_join:
  "snd (get_transcript_data m s) = s
   \<and> (fst (get_transcript_data m s) \<noteq> None
        \<longleftrightarrow> chunk_rows m s \<noteq> [] \<and> process_rows m s \<noteq> [])
   \<and> fst (get_transcript_data m s) =
       (case chunk_rows m s of
          [] \<Rightarrow> None
        | t # _ \<Rightarrow> (case process_rows m s of
                      [] \<Rightarrow> None
                    | p # _ \<Rightarrow> Some (t, p_status p, p_result p)))
   \<and> chunk_rows ''m1'' db_chunk \<noteq> [] \<and> process_rows ''m1'' db_chunk = []
   \<and> fst (get_transcript_data ''m1'' db_chunk) = None"
proof -
  have unchanged: "snd (get_transcript_data m s) = s"
    by (simp add: get_transcript_data_def)
  have iff: "fst (get_transcript_data m s) \<noteq> None
               \<longleftrightarrow> chunk_rows m s \<noteq> [] \<and> process_rows m s \<noteq> []"
    by (simp add: get_transcript_data_first split: list.split)
  have chunks: "chunk_rows ''m1'' db_chunk \<noteq> []"
    by (simp add: db_chunk_def eval_transcript)
  have procs: "process_rows ''m1'' db_chunk = []"
    by (simp add: db_chunk_def process_rows_def eval_transcript)
  from chunks procs have scenario: "fst (get_transcript_data ''m1'' db_chunk) = None"
    by (simp add: get_transcript_data_first split: list.split)
  from unchanged iff chunks procs scenario show ?thesis
    by (simp add: get_transcript_data_first)
qed

section \<open>Properties of the meeting registry\<close>

lemma save_meeting_new:
  assumes "m \<notin> set (map m_id (meetings s))" and "t \<notin> set (map m_title (meetings s))"
  shows "save_meeting m t now s =
           (Inr True, s\<lparr>meetings := meetings s @ [\<lparr>m_id = m, m_title = t, m_created_at = now,
                                                   m_updated_at = now\<rparr>]\<rparr>)"
proof -
  from assms have "filter (\<lambda>r. m_id r = m \<or> m_title r = t) (meetings s) = []"
    by (auto simp: filter_empty_conv)
  with assms(1) show ?thesis
    by (simp add: save_meeting_def fetchone_def sql_insert_def)
qed

lemma save_meeting_existing:
  assumes "m \<in> set (map m_id (meetings s)) \<or> t \<in> set (map m_title (meetings s))"
  shows "save_meeting m t now s =
           (Inl (Exception (''Meeting with ID '' @ m @ '' already exists'')), s)"
proof -
  from assms have "filter (\<lambda>r. m_id r = m \<or> m_title r = t) (meetings s) \<noteq> []"
    by (auto simp: filter_empty_conv)
  then show ?thesis
    by (cases "filter (\<lambda>r. m_id r = m \<or> m_title r = t) (meetings s)")
       (simp_all add: save_meeting_def fetchone_def)
qed

lemma save_meeting_then_existing:
  "m \<in> set (map m_id (meetings (snd (save_meeting m t now s))))
   \<or> t \<in> set (map m_title (meetings (snd (save_meeting m t now s))))"
proof (cases "m \<in> set (map m_id (meetings s)) \<or> t \<in> set (map m_title (meetings s))")
  case True
  then show ?thesis
    by (simp only: save_meeting_existing snd_conv)
next
  case False
  then show ?thesis
    by (simp add: save_meeting_new)
qed

text \<open>
  Claim C10. \<open>save_meeting\<close> inserts the meeting when no meeting has that id and none has
  that title, and returns \<^verbatim>\<open>True\<close>; when a meeting has that id or that title it raises
  and the database is the one before the call. A second call with the same id and title
  always raises and changes nothing; when the first call inserted the meeting, the table
  then holds exactly one row with that id or title, the one the first call wrote.
\<close>

theorem save_meeting_conflict:
  "(m \<notin> set (map m_id (meetings s)) \<and> t \<notin> set (map m_title (meetings s))
      \<longrightarrow> save_meeting m t now s =
            (Inr True, s\<lparr>meetings := meetings s @ [\<lparr>m_id = m, m_title = t, m_created_at = now,
                                                    m_updated_at = now\<rparr>]\<rparr>))
   \<and> (m \<in> set (map m_id (meetings s)) \<or> t \<in> set (map m_title (meetings s))
      \<longrightarrow> save_meeting m t now s =
            (Inl (Exception (''Meeting with ID '' @ m @ '' already exists'')), s))
   \<and> save_meeting m t now' (snd (save_meeting m t now s)) =
       (Inl (Exception (''Meeting with ID '' @ m @ '' already exists'')),
        snd (save_meeting m t now s))
   \<and> (m \<notin> set (map m_id (meetings s)) \<and> t \<notin> set (map m_title (meetings s))
      \<longrightarrow> filter (\<lambda>r. m_id r = m \<or> m_title r = t)
            (meetings (snd (save_meeting m t now' (snd (save_meeting m t now s)))))
          = [\<lparr>m_id = m, m_title = t, m_created_at = now, m_updated_at = now\<rparr>])"
proof -
  have second: "save_meeting m t now' (snd (save_meeting m t now s)) =
       (Inl (Exception (''Meeting with ID '' @ m @ '' already exists'')),
        snd (save_meeting m t now s))"
    using save_meeting_then_existing by (rule save_meeting_existing)
  have one: "filter (\<lambda>r. m_id r = m \<or> m_title r = t)
            (meetings (snd (save_meeting m t now' (snd (save_meeting m t now s)))))
          = [\<lparr>m_id = m, m_title = t, m_created_at = now, m_updated_at = now\<rparr>]"
    if fresh: "m \<notin> set (map m_id (meetings s)) \<and> t \<notin> set (map m_title (meetings s))"
  proof -
    from fresh have "filter (\<lambda>r. m_id r = m \<or> m_title r = t) (meetings s) = []"
      by (auto simp: filter_empty_conv)
    moreover from fresh have "meetings (snd (save_meeting m t now s)) =
        meetings s @ [\<lparr>m_id = m, m_title = t, m_created_at = now, m_updated_at = now\<rparr>]"
      by (simp add: save_meeting_new)
    ultimately show ?thesis
      unfolding second snd_conv by simp
  qed
  from second one show ?thesis
    by (simp add: save_meeting_new save_meeting_existing)
qed

theorem save_meeting_conflict_witness:
  "save_meeting ''m2'' ''Title'' ''t0'' empty_db =
     (Inr True, empty_db\<lparr>meetings := [\<lparr>m_id = ''m2'', m_title = ''Title'', m_created_at = ''t0'',
                                       m_updated_at = ''t0''\<rparr>]\<rparr>)
   \<and> save_meeting ''m2'' ''Title'' ''t1'' (snd (save_meeting ''m2'' ''Title'' ''t0'' empty_db)) =
       (Inl (Exception ''Meeting with ID m2 already exists''),
        snd (save_meeting ''m2'' ''Title'' ''t0'' empty_db))
   \<and> meetings (snd (save_meeting ''m2'' ''Title'' ''t1''
                      (snd (save_meeting ''m2'' ''Title'' ''t0'' empty_db))))
     = [\<lparr>m_id = ''m2'', m_title = ''Title'', m_created_at = ''t0'', m_updated_at = ''t0''\<rparr>]
   \<and> save_meeting ''m3'' ''Title'' ''t2'' (snd (save_meeting ''m2'' ''Title'' ''t0'' empty_db)) =
       (Inl (Exception ''Meeting with ID m3 already exists''),
        snd (save_meeting ''m2'' ''Title'' ''t0'' empty_db))"
proof -
  have fresh: "''m2'' \<notin> set (map m_id (meetings empty_db))
               \<and> ''Title'' \<notin> set (map m_title (meetings empty_db))"
    by (simp add: empty_db_def)
  have first: "meetings (snd (save_meeting ''m2'' ''Title'' ''t0'' empty_db))
     = [\<lparr>m_id = ''m2'', m_title = ''Title'', m_created_at = ''t0'', m_updated_at = ''t0''\<rparr>]"
    by (simp add: save_meeting_def empty_db_def fetchone_def sql_insert_def)
  then have taken: "''m3'' \<in> set (map m_id (meetings (snd (save_meeting ''m2'' ''Title'' ''t0''
                                                            empty_db))))
               \<or> ''Title'' \<in> set (map m_title (meetings (snd (save_meeting ''m2'' ''Title'' ''t0''
                                                                empty_db))))"
    by simp
  note c1 = save_meeting_conflict [of "''m2''" empty_db "''Title''" "''t0''" "''t1''"]
  note c2 = save_meeting_conflict [of "''m3''" "snd (save_meeting ''m2'' ''Title'' ''t0'' empty_db)"
               "''Title''" "''t2''" "''t3''"]
  from c1 fresh have a: "save_meeting ''m2'' ''Title'' ''t0'' empty_db =
     (Inr True, empty_db\<lparr>meetings := meetings empty_db @
         [\<lparr>m_id = ''m2'', m_title = ''Title'', m_created_at = ''t0'', m_updated_at = ''t0''\<rparr>]\<rparr>)"
    by blast
  from c1 have b: "save_meeting ''m2'' ''Title'' ''t1''
                     (snd (save_meeting ''m2'' ''Title'' ''t0'' empty_db)) =
       (Inl (Exception (''Meeting with ID '' @ ''m2'' @ '' already exists'')),
        snd (save_meeting ''m2'' ''Title'' ''t0'' empty_db))"
    by blast
  from c2 taken have c: "save_meeting ''m3'' ''Title'' ''t2''
                           (snd (save_meeting ''m2'' ''Title'' ''t0'' empty_db)) =
       (Inl (Exception (''Meeting with ID '' @ ''m3'' @ '' already exists'')),
        snd (save_meeting ''m2'' ''Title'' ''t0'' empty_db))"
    by blast
  have e: "meetings empty_db = []"
    by (simp add: empty_db_def)
  show ?thesis
    unfolding b c by (simp add: a e first)
qed

section \<open>Properties of the settings\<close>

lemmas eval_settings =
  init_db_def sql_insert_or_ignore_def default_settings_def empty_db_def save_api_key_def
  get_api_key_def delete_api_key_def provider_list_def api_key_name_def sql_update_def
  fetchone_def

lemma init_db_absent:
  "''1'' \<notin> set (map s_id (settings s)) \<Longrightarrow>
   init_db s = s\<lparr>settings := settings s @ [default_settings]\<rparr>"
  by (simp add: init_db_def sql_insert_or_ignore_def default_settings_def)

lemma init_db_present: "''1'' \<in> set (map s_id (settings s)) \<Longrightarrow> init_db s = s"
  by (simp add: init_db_def sql_insert_or_ignore_def default_settings_def)

lemma init_db_has_row: "''1'' \<in> set (map s_id (settings (init_db s)))"
  by (cases "''1'' \<in> set (map s_id (settings s))")
     (simp_all add: init_db_present init_db_absent, simp add: default_settings_def)

lemma init_db_twice: "init_db (init_db s) = init_db s"
  using init_db_has_row by (rule init_db_present)

lemma init_db_repeated: "0 < n \<Longrightarrow> (init_db ^^ n) s = init_db s"
proof (induction n)
  case 0
  then show ?case by simp
next
  case (Suc n)
  show ?case
  proof (cases "n = 0")
    case True
    then show ?thesis by simp
  next
    case False
    with Suc.IH have "(init_db ^^ n) s = init_db s"
      by simp
    then show ?thesis
      by (simp add: init_db_twice)
  qed
qed

lemma filter_key_absent: "k \<notin> set (map key rows) \<Longrightarrow> filter (\<lambda>r. key r = k) rows = []"
  by (induction rows) auto

lemma filter_key_present: "k \<in> set (map key rows) \<Longrightarrow> filter (\<lambda>r. key r = k) rows \<noteq> []"
  by (induction rows) auto

lemma init_db_one_row:
  assumes "distinct (map s_id (settings s))"
  shows "length (filter (\<lambda>r. s_id r = ''1'') (settings (init_db s))) = 1"
proof (cases "''1'' \<in> set (map s_id (settings s))")
  case True
  then have "filter (\<lambda>r. s_id r = ''1'') (settings s) \<noteq> []"
    by (rule filter_key_present)
  moreover have "length (filter (\<lambda>r. s_id r = ''1'') (settings s)) \<le> 1"
    using assms by (rule distinct_key_rows)
  ultimately have "length (filter (\<lambda>r. s_id r = ''1'') (settings s)) = 1"
    by (cases "filter (\<lambda>r. s_id r = ''1'') (settings s)") simp_all
  with True show ?thesis
    by (simp add: init_db_present)
next
  case False
  then have "filter (\<lambda>r. s_id r = ''1'') (settings s) = []"
    by (rule filter_key_absent)
  with False show ?thesis
    by (simp add: init_db_absent) (simp add: default_settings_def)
qed

text \<open>
  Claim C8. In a settings table whose primary key holds, after any positive number of
  runs of the bootstrap exactly one row has the id \<^verbatim>\<open>'1'\<close>. When no row has that id the
  bootstrap appends the default row (provider \<^verbatim>\<open>openai\<close>, model \<^verbatim>\<open>gpt-4o-mini\<close>,
  whisper model \<^verbatim>\<open>whisper-1\<close>, no API key); when a row has it the bootstrap leaves the
  whole database as it is, so no field of that row is overwritten. Running the bootstrap
  again changes nothing.
\<close>

theorem init_db_settings_singleton:
  "(distinct (map s_id (settings s)) \<and> 0 < n
      \<longrightarrow> length (filter (\<lambda>r. s_id r = ''1'') (settings ((init_db ^^ n) s))) = 1)
   \<and> (''1'' \<notin> set (map s_id (settings s))
      \<longrightarrow> init_db s = s\<lparr>settings := settings s @ [default_settings]\<rparr>)
   \<and> (''1'' \<in> set (map s_id (settings s)) \<longrightarrow> init_db s = s)
   \<and> (0 < n \<longrightarrow> (init_db ^^ n) s = init_db s)
   \<and> default_settings =
       \<lparr>s_id = ''1'', s_provider = ''openai'', s_model = ''gpt-4o-mini'',
        s_whisperModel = ''whisper-1'', s_groqApiKey = None, s_openaiApiKey = None,
        s_anthropicApiKey = None, s_ollamaApiKey = None\<rparr>"
  by (simp add: init_db_repeated init_db_one_row init_db_absent init_db_present)
     (simp add: default_settings_def)

theorem init_db_settings_singleton_witness:
  "settings ((init_db ^^ 3) empty_db) = [default_settings]
   \<and> settings ((init_db ^^ 2) db_key) = [default_settings\<lparr>s_openaiApiKey := Some ''sk-123''\<rparr>]
   \<and> init_db db_key = db_key
   \<and> distinct (map s_id (settings db_key))"
proof -
  have k: "settings db_key = [default_settings\<lparr>s_openaiApiKey := Some ''sk-123''\<rparr>]"
    by (simp add: db_key_def db_init_def eval_settings)
  have e: "settings empty_db = []"
    by (simp add: empty_db_def)
  have absent: "''1'' \<notin> set (map s_id (settings empty_db))"
    by (simp add: e)
  have present: "''1'' \<in> set (map s_id (settings db_key))"
    by (simp add: k default_settings_def)
  have d: "distinct (map s_id (settings db_key))"
    by (simp add: k)
  note t1 = init_db_settings_singleton [of empty_db 3]
  note t2 = init_db_settings_singleton [of db_key 2]
  from t1 absent have a1: "init_db empty_db = empty_db\<lparr>settings := settings empty_db @ [default_settings]\<rparr>"
    by blast
  from t1 have a2: "(init_db ^^ 3) empty_db = init_db empty_db"
    by simp
  from t2 present have b1: "init_db db_key = db_key"
    by blast
  from t2 have b2: "(init_db ^^ 2) db_key = init_db db_key"
    by simp
  show ?thesis
    unfolding a2 b2 b1 by (simp add: a1 e k d)
qed

section \<open>Properties of the API keys\<close>

lemma invalid_provider:
  assumes "provider \<notin> set provider_list"
  shows "save_api_key api_key provider s = (Inl (ValueError (''Invalid provider: '' @ provider)), s)"
    and "get_api_key provider s = (Inl (ValueError (''Invalid provider: '' @ provider)), s)"
    and "delete_api_key provider s = (Inl (ValueError (''Invalid provider: '' @ provider)), s)"
  using assms by (simp_all add: save_api_key_def get_api_key_def delete_api_key_def)

lemma save_api_key_columns:
  "save_api_key k ''openai'' s =
     (Inr (), s\<lparr>settings := map (\<lambda>r. if s_id r = ''1'' then r\<lparr>s_openaiApiKey := Some k\<rparr> else r)
                               (settings s)\<rparr>)"
  "save_api_key k ''claude'' s =
     (Inr (), s\<lparr>settings := map (\<lambda>r. if s_id r = ''1'' then r\<lparr>s_anthropicApiKey := Some k\<rparr> else r)
                               (settings s)\<rparr>)"
  "save_api_key k ''groq'' s =
     (Inr (), s\<lparr>settings := map (\<lambda>r. if s_id r = ''1'' then r\<lparr>s_groqApiKey := Some k\<rparr> else r)
                               (settings s)\<rparr>)"
  "save_api_key k ''ollama'' s =
     (Inr (), s\<lparr>settings := map (\<lambda>r. if s_id r = ''1'' then r\<lparr>s_ollamaApiKey := Some k\<rparr> else r)
                               (settings s)\<rparr>)"
  by (simp_all add: save_api_key_def provider_list_def api_key_name_def sql_update_def)

lemma delete_api_key_columns:
  "delete_api_key ''openai'' s =
     (Inr (), s\<lparr>settings := map (\<lambda>r. if s_id r = ''1'' then r\<lparr>s_openaiApiKey := None\<rparr> else r)
                               (settings s)\<rparr>)"
  "delete_api_key ''claude'' s =
     (Inr (), s\<lparr>settings := map (\<lambda>r. if s_id r = ''1'' then r\<lparr>s_anthropicApiKey := None\<rparr> else r)
                               (settings s)\<rparr>)"
  "delete_api_key ''groq'' s =
     (Inr (), s\<lparr>settings := map (\<lambda>r. if s_id r = ''1'' then r\<lparr>s_groqApiKey := None\<rparr> else r)
                               (settings s)\<rparr>)"
  "delete_api_key ''ollama'' s =
     (Inr (), s\<lparr>settings := map (\<lambda>r. if s_id r = ''1'' then r\<lparr>s_ollamaApiKey := None\<rparr> else r)
                               (settings s)\<rparr>)"
  by (simp_all add: delete_api_key_def provider_list_def api_key_name_def sql_update_def)

text \<open>What \<open>get_api_key\<close> makes of the column it read: an empty key counts as no key.\<close>

lemma get_api_key_columns:
  "get_api_key ''openai'' s =
     (Inr (case filter (\<lambda>r. s_id r = ''1'') (settings s) of
             [] \<Rightarrow> None
           | r # _ \<Rightarrow> (if s_openaiApiKey r = Some [] then None else s_openaiApiKey r)), s)"
  "get_api_key ''claude'' s =
     (Inr (case filter (\<lambda>r. s_id r = ''1'') (settings s) of
             [] \<Rightarrow> None
           | r # _ \<Rightarrow> (if s_anthropicApiKey r = Some [] then None else s_anthropicApiKey r)), s)"
  "get_api_key ''groq'' s =
     (Inr (case filter (\<lambda>r. s_id r = ''1'') (settings s) of
             [] \<Rightarrow> None
           | r # _ \<Rightarrow> (if s_groqApiKey r = Some [] then None else s_groqApiKey r)), s)"
  "get_api_key ''ollama'' s =
     (Inr (case filter (\<lambda>r. s_id r = ''1'') (settings s) of
             [] \<Rightarrow> None
           | r # _ \<Rightarrow> (if s_ollamaApiKey r = Some [] then None else s_ollamaApiKey r)), s)"
  by (simp_all add: get_api_key_def provider_list_def api_key_name_def fetchone_def
                split: list.split option.split)

lemma delete_api_key_keeps_rows:
  "map s_id (settings (snd (delete_api_key provider s))) = map s_id (settings s)"
proof (cases "provider \<in> set provider_list")
  case False
  then show ?thesis
    by (simp add: invalid_provider)
next
  case True
  then have "provider = ''openai'' \<or> provider = ''claude'' \<or> provider = ''groq''
             \<or> provider = ''ollama''"
    by (simp add: provider_list_def)
  then show ?thesis
    by (auto simp: delete_api_key_columns comp_def)
qed

text \<open>
  Claim C7. A provider outside the list \<^verbatim>\<open>openai\<close>, \<^verbatim>\<open>claude\<close>, \<^verbatim>\<open>groq\<close>, \<^verbatim>\<open>ollama\<close> makes
  \<open>save_api_key\<close>, \<open>get_api_key\<close> and \<open>delete_api_key\<close> raise the value error before any
  statement runs: the database is the one before the call. For a provider of the list,
  \<open>save_api_key\<close> and \<open>delete_api_key\<close> rewrite, in the rows with id \<^verbatim>\<open>'1'\<close>, the one column of
  that provider (\<^verbatim>\<open>claude\<close> has the column \<^verbatim>\<open>anthropicApiKey\<close>) and nothing else, and
  \<open>get_api_key\<close> reads that column of the first such row and changes nothing.
  \<open>delete_api_key\<close> sets the column to NULL and keeps every row of the table.
\<close>

theorem api_key_allow_list:
  "(provider \<notin> set provider_list \<longrightarrow>
      save_api_key k provider s = (Inl (ValueError (''Invalid provider: '' @ provider)), s)
      \<and> get_api_key provider s = (Inl (ValueError (''Invalid provider: '' @ provider)), s)
      \<and> delete_api_key provider s = (Inl (ValueError (''Invalid provider: '' @ provider)), s))
   \<and> provider_list = [''openai'', ''claude'', ''groq'', ''ollama'']
   \<and> save_api_key k ''openai'' s =
       (Inr (), s\<lparr>settings := map (\<lambda>r. if s_id r = ''1'' then r\<lparr>s_openaiApiKey := Some k\<rparr> else r)
                                 (settings s)\<rparr>)
   \<and> save_api_key k ''claude'' s =
       (Inr (), s\<lparr>settings := map (\<lambda>r. if s_id r = ''1'' then r\<lparr>s_anthropicApiKey := Some k\<rparr>
                                      else r)
                                 (settings s)\<rparr>)
   \<and> save_api_key k ''groq'' s =
       (Inr (), s\<lparr>settings := map (\<lambda>r. if s_id r = ''1'' then r\<lparr>s_groqApiKey := Some k\<rparr> else r)
                                 (settings s)\<rparr>)
   \<and> save_api_key k ''ollama'' s =
       (Inr (), s\<lparr>settings := map (\<lambda>r. if s_id r = ''1'' then r\<lparr>s_ollamaApiKey := Some k\<rparr> else r)
                                 (settings s)\<rparr>)
   \<and> delete_api_key ''openai'' s =
       (Inr (), s\<lparr>settings := map (\<lambda>r. if s_id r = ''1'' then r\<lparr>s_openaiApiKey := None\<rparr> else r)
                                 (settings s)\<rparr>)
   \<and> delete_api_key ''claude'' s =
       (Inr (), s\<lparr>settings := map (\<lambda>r. if s_id r = ''1'' then r\<lparr>s_anthropicApiKey := None\<rparr> else r)
                                 (settings s)\<rparr>)
   \<and> delete_api_key ''groq'' s =
       (Inr (), s\<lparr>settings := map (\<lambda>r. if s_id r = ''1'' then r\<lparr>s_groqApiKey := None\<rparr> else r)
                                 (settings s)\<rparr>)
   \<and> delete_api_key ''ollama'' s =
       (Inr (), s\<lparr>settings := map (\<lambda>r. if s_id r = ''1'' then r\<lparr>s_ollamaApiKey := None\<rparr> else r)
                                 (settings s)\<rparr>)
   \<and> get_api_key ''openai'' s =
       (Inr (case filter (\<lambda>r. s_id r = ''1'') (settings s) of
               [] \<Rightarrow> None
             | r # _ \<Rightarrow> (if s_openaiApiKey r = Some [] then None else s_openaiApiKey r)), s)
   \<and> get_api_key ''claude'' s =
       (Inr (case filter (\<lambda>r. s_id r = ''1'') (settings s) of
               [] \<Rightarrow> None
             | r # _ \<Rightarrow> (if s_anthropicApiKey r = Some [] then None else s_anthropicApiKey r)), s)
   \<and> get_api_key ''groq'' s =
       (Inr (case filter (\<lambda>r. s_id r = ''1'') (settings s) of
               [] \<Rightarrow> None
             | r # _ \<Rightarrow> (if s_groqApiKey r = Some [] then None else s_groqApiKey r)), s)
   \<and> get_api_key ''ollama'' s =
       (Inr (case filter (\<lambda>r. s_id r = ''1'') (settings s) of
               [] \<Rightarrow> None
             | r # _ \<Rightarrow> (if s_ollamaApiKey r = Some [] then None else s_ollamaApiKey r)), s)
   \<and> map s_id (settings (snd (delete_api_key provider s))) = map s_id (settings s)"
proof -
  have invalid: "provider \<notin> set provider_list \<longrightarrow>
      save_api_key k provider s = (Inl (ValueError (''Invalid provider: '' @ provider)), s)
      \<and> get_api_key provider s = (Inl (ValueError (''Invalid provider: '' @ provider)), s)
      \<and> delete_api_key provider s = (Inl (ValueError (''Invalid provider: '' @ provider)), s)"
    by (simp add: invalid_provider)
  show ?thesis
    by (intro conjI invalid provider_list_def save_api_key_columns delete_api_key_columns
          get_api_key_columns delete_api_key_keeps_rows)
qed

theorem api_key_allow_list_witness:
  "''azure'' \<notin> set provider_list
   \<and> save_api_key ''sk-999'' ''azure'' db_key = (Inl (ValueError ''Invalid provider: azure''), db_key)
   \<and> get_api_key ''azure'' db_key = (Inl (ValueError ''Invalid provider: azure''), db_key)
   \<and> delete_api_key ''azure'' db_key = (Inl (ValueError ''Invalid provider: azure''), db_key)
   \<and> settings db_key = [default_settings\<lparr>s_openaiApiKey := Some ''sk-123''\<rparr>]
   \<and> get_api_key ''openai'' db_key = (Inr (Some ''sk-123''), db_key)
   \<and> settings (snd (delete_api_key ''openai'' db_key)) = [default_settings]
   \<and> fst (get_api_key ''openai'' (snd (delete_api_key ''openai'' db_key))) = Inr None"
proof -
  have azure: "''azure'' \<notin> set provider_list"
    by (simp add: provider_list_def)
  have k: "settings db_key = [default_settings\<lparr>s_openaiApiKey := Some ''sk-123''\<rparr>]"
    by (simp add: db_key_def db_init_def eval_settings)
  note t = api_key_allow_list [of "''azure''" "''sk-999''" db_key]
  from t azure
  have a: "save_api_key ''sk-999'' ''azure'' db_key
             = (Inl (ValueError (''Invalid provider: '' @ ''azure'')), db_key)
           \<and> get_api_key ''azure'' db_key
             = (Inl (ValueError (''Invalid provider: '' @ ''azure'')), db_key)
           \<and> delete_api_key ''azure'' db_key
             = (Inl (ValueError (''Invalid provider: '' @ ''azure'')), db_key)"
    by blast
  from t have g: "get_api_key ''openai'' db_key =
       (Inr (case filter (\<lambda>r. s_id r = ''1'') (settings db_key) of
               [] \<Rightarrow> None
             | r # _ \<Rightarrow> (if s_openaiApiKey r = Some [] then None else s_openaiApiKey r)), db_key)"
    by blast
  from t have d: "delete_api_key ''openai'' db_key =
       (Inr (), db_key\<lparr>settings := map (\<lambda>r. if s_id r = ''1'' then r\<lparr>s_openaiApiKey := None\<rparr>
                                           else r)
                                      (settings db_key)\<rparr>)"
    by blast
  have d': "settings (snd (delete_api_key ''openai'' db_key)) = [default_settings]"
    unfolding d by (simp add: k default_settings_def)
  have g': "fst (get_api_key ''openai'' (snd (delete_api_key ''openai'' db_key))) = Inr None"
    by (simp add: get_api_key_columns d' default_settings_def)
  have g'': "get_api_key ''openai'' db_key = (Inr (Some ''sk-123''), db_key)"
    unfolding g by (simp add: k default_settings_def)
  from azure a k g'' d' g' show ?thesis
    by simp
qed

end
